theory Spec2Isabelle
  imports Complex_Main "HOL-Library.Word" "HOL-Library.Sublist"
begin

section \<open>JavaScript strings\<close>

text \<open>
  A JavaScript string is a sequence of UTF-16 code units. The literals of \<^verbatim>\<open>main.ts\<close>
  are ASCII; \<open>js\<close> turns an ASCII literal into its code units.
\<close>

type_synonym js_string = "16 word list"

definition js :: "string \<Rightarrow> js_string" where
  "js s = map of_char s"

text \<open>
  \<^verbatim>\<open>String.prototype.trim\<close> removes the ECMAScript white space and line terminator
  code units from both ends.
\<close>

definition is_whitespace :: "16 word \<Rightarrow> bool" where
  "is_whitespace c =
     (c \<in> set [0x0009, 0x000A, 0x000B, 0x000C, 0x000D, 0x0020, 0x00A0, 0x1680,
                0x2000, 0x2001, 0x2002, 0x2003, 0x2004, 0x2005, 0x2006, 0x2007,
                0x2008, 0x2009, 0x200A, 0x2028, 0x2029, 0x202F, 0x205F, 0x3000, 0xFEFF])"

definition trim :: "js_string \<Rightarrow> js_string" where
  "trim s = rev (dropWhile is_whitespace (rev (dropWhile is_whitespace s)))"

text \<open>A string is truthy exactly when it is not empty.\<close>

definition truthy_string :: "js_string \<Rightarrow> bool" where
  "truthy_string s = (s \<noteq> [])"

text \<open>\<^verbatim>\<open>`${n}`\<close> for a non-negative integer: its decimal digits.\<close>

fun decimal :: "nat \<Rightarrow> js_string" where
  "decimal n = (if n < 10 then [of_nat (48 + n)] else decimal (n div 10) @ [of_nat (48 + n mod 10)])"

declare decimal.simps [simp del]

section \<open>Settings\<close>

text \<open>
  The interface \<^verbatim>\<open>RefinerSettings\<close> of the later version of the plugin in
  \<^verbatim>\<open>main.ts\<close> (the one with \<^verbatim>\<open>useOllama\<close>). The specification calls the fields
  credential (\<open>apiKey\<close>), modelId (\<open>model\<close>), endpointUrl (\<open>apiUrl\<close>), preferredTags
  (\<open>tags\<close>), extraInstructions (\<open>additionalInstructions\<close>) and useAlternateProvider
  (\<open>useOllama\<close>).
\<close>

record RefinerSettings =
  apiKey :: js_string
  model :: js_string
  apiUrl :: js_string
  tags :: js_string
  additionalInstructions :: js_string
  useOllama :: bool

definition DEFAULT_SETTINGS :: RefinerSettings where
  "DEFAULT_SETTINGS =
     \<lparr> apiKey = js '''',
       model = js ''gpt-4o'',
       apiUrl = js ''https://api.openai.com/v1/chat/completions'',
       tags = js '''',
       additionalInstructions = js '''',
       useOllama = False \<rparr>"

section \<open>The prompt of \<^verbatim>\<open>refineNote\<close>\<close>

text \<open>
  The three template literals of \<^verbatim>\<open>refineNote\<close>, with the settings passed as a value.
  The condition of \<open>tagInstruction\<close> trims the tags; the text it interpolates is the
  stored field. The condition on \<open>additionalInstructions\<close> is the truthiness of the stored
  field.
\<close>

definition tagInstruction :: "RefinerSettings \<Rightarrow> js_string" where
  "tagInstruction st =
     (if truthy_string (trim (tags st))
      then js ''If any content fits the following tags, add them where appropriate (e.g. headers, checklists). Doesn't just have to be for headers, can be at any point in the document: '' @ tags st
      else js '''')"

definition baseInstructions :: js_string where
  "baseInstructions = js
     (''You are a helpful assistant that formats and improves Markdown notes for use in Obsidian.\<newline>'' @
      ''\<newline>'' @
      ''Clean up the following note by:\<newline>'' @
      ''- Fixing grammar, punctuation, and inconsistent structure\<newline>'' @
      ''- Making the content easier to read and logically organized\<newline>'' @
      ''- Applying proper Obsidian Markdown formatting:\<newline>'' @
      ''  - Use `#`, `##`, `###`, `####` for headings\<newline>'' @
      ''  - Format lists using `-` or `1.` consistently\<newline>'' @
      ''  - Convert any tasks into `[ ]` or `[x]` checkboxes\<newline>'' @
      ''  - Preserve and reformat code blocks, blockquotes, and inline formatting\<newline>'' @
      ''  - Don't wrap the whole response in a code block\<newline>'' @
      ''  - Avoid `---` at the top (it breaks Obsidian rendering)\<newline>'' @
      ''\<newline>'' @
      ''Keep all important content, but reword or reformat for clarity where helpful.'')"

definition tag_clause :: "RefinerSettings \<Rightarrow> js_string" where
  "tag_clause st =
     (if truthy_string (tagInstruction st) then js ''\<newline>- '' @ tagInstruction st else js '''')"

definition additional_clause :: "RefinerSettings \<Rightarrow> js_string" where
  "additional_clause st =
     (if truthy_string (additionalInstructions st)
      then js ''\<newline>\<newline>Additional Instructions:\<newline>'' @ additionalInstructions st
      else js '''')"

definition note_marker :: js_string where
  "note_marker = js ''\<newline>\<newline>### Note:\<newline>''"

definition prompt :: "RefinerSettings \<Rightarrow> js_string \<Rightarrow> js_string" where
  "prompt st original =
     baseInstructions @ js ''\<newline>'' @
     tag_clause st @ js ''\<newline>'' @
     additional_clause st @ js ''\<newline>'' @
     note_marker @ original"

section \<open>JavaScript values\<close>

text \<open>
  \<^verbatim>\<open>res.json()\<close> has type \<^verbatim>\<open>any\<close>: the parsed body may be any JSON value, and a
  property access may give \<^verbatim>\<open>undefined\<close>. A number is carried as the rational it
  denotes (a literal so large that it parses to \<^verbatim>\<open>Infinity\<close> is left out). An object
  is the list of its own properties, each key once.
\<close>

datatype jsval =
    JUndefined
  | JNull
  | JBool bool
  | JNum rat
  | JStr js_string
  | JArr "jsval list"
  | JObj "(js_string \<times> jsval) list"

datatype js_error =
    Error js_string
  | TypeError js_string
  | SyntaxError js_string

text \<open>ToBoolean.\<close>

fun js_truthy :: "jsval \<Rightarrow> bool" where
  "js_truthy JUndefined = False"
| "js_truthy JNull = False"
| "js_truthy (JBool b) = b"
| "js_truthy (JNum x) = (x \<noteq> 0)"
| "js_truthy (JStr s) = truthy_string s"
| "js_truthy (JArr xs) = True"
| "js_truthy (JObj kvs) = True"

text \<open>\<^verbatim>\<open>a || b\<close>.\<close>

definition js_or :: "jsval \<Rightarrow> jsval \<Rightarrow> jsval" where
  "js_or a b = (if js_truthy a then a else b)"

text \<open>
  \<^verbatim>\<open>v.key\<close> for the keys the plugin reads (\<^verbatim>\<open>response\<close>, \<^verbatim>\<open>choices\<close>, \<^verbatim>\<open>message\<close>,
  \<^verbatim>\<open>content\<close>), none of which is a property of a string, number, boolean or array:
  a TypeError on \<^verbatim>\<open>null\<close> and \<^verbatim>\<open>undefined\<close>, the property of an object, and
  \<^verbatim>\<open>undefined\<close> otherwise.
\<close>

fun js_member :: "jsval \<Rightarrow> js_string \<Rightarrow> js_error + jsval" where
  "js_member JUndefined key = Inl (TypeError (js ''Cannot read properties of undefined''))"
| "js_member JNull key = Inl (TypeError (js ''Cannot read properties of null''))"
| "js_member (JObj kvs) key = Inr (case map_of kvs key of None \<Rightarrow> JUndefined | Some v \<Rightarrow> v)"
| "js_member v key = Inr JUndefined"

text \<open>\<^verbatim>\<open>v?.key\<close>: \<^verbatim>\<open>undefined\<close> when \<open>v\<close> is \<^verbatim>\<open>null\<close> or \<^verbatim>\<open>undefined\<close>.\<close>

fun js_opt_member :: "jsval \<Rightarrow> js_string \<Rightarrow> jsval" where
  "js_opt_member (JObj kvs) key = (case map_of kvs key of None \<Rightarrow> JUndefined | Some v \<Rightarrow> v)"
| "js_opt_member v key = JUndefined"

text \<open>
  \<^verbatim>\<open>v?.[0]\<close>: the first element of an array, the first code unit of a string, the
  property \<^verbatim>\<open>"0"\<close> of an object.
\<close>

fun js_opt_index0 :: "jsval \<Rightarrow> jsval" where
  "js_opt_index0 (JArr xs) = (case xs of [] \<Rightarrow> JUndefined | x # _ \<Rightarrow> x)"
| "js_opt_index0 (JStr s) = (case s of [] \<Rightarrow> JUndefined | c # _ \<Rightarrow> JStr [c])"
| "js_opt_index0 (JObj kvs) = (case map_of kvs (js ''0'') of None \<Rightarrow> JUndefined | Some v \<Rightarrow> v)"
| "js_opt_index0 v = JUndefined"

section \<open>The host: vault, notices, console, network\<close>

record TFile =
  path :: js_string
  name :: js_string

record http_request =
  url :: js_string
  http_method :: js_string
  headers :: "(js_string \<times> js_string) list"
  body :: jsval

text \<open>
  A response as \<^verbatim>\<open>fetch\<close> resolves it: \<open>body_text\<close> is what \<^verbatim>\<open>res.text()\<close> gives,
  \<open>body_json\<close> what \<^verbatim>\<open>res.json()\<close> gives (\<open>Inl\<close> when the body does not parse).
\<close>

record http_response =
  status :: nat
  statusText :: js_string
  body_text :: js_string
  body_json :: "js_error + jsval"

definition ok :: "http_response \<Rightarrow> bool" where
  "ok res = (200 \<le> status res \<and> status res \<le> 299)"

text \<open>
  What the host does during one run of \<^verbatim>\<open>refineNote\<close>: whether \<^verbatim>\<open>vault.read\<close> and
  \<^verbatim>\<open>vault.modify\<close> reject, what \<^verbatim>\<open>fetch\<close> gives (\<open>Inl\<close>: the transport failed), and
  what the vault writes when \<^verbatim>\<open>modify\<close> is handed data that is not a string.
  A call of \<^verbatim>\<open>vault.modify\<close> that rejects leaves the vault as it was. One run is
  modelled at a time; runs that overlap are not.
\<close>

record host =
  read_fault :: "js_error option"
  fetch_result :: "js_error + http_response"
  modify_fault :: "js_error option"
  nonstring_write :: "jsval \<Rightarrow> js_error + js_string"

record world =
  vault :: "js_string \<Rightarrow> js_string"
  open_modals :: nat
  notices :: "js_string list"
  console :: "(js_string \<times> js_error) list"
  sent :: "http_request list"

section \<open>Asynchronous code\<close>

text \<open>
  An async function, run to completion: from a world to the value it resolves to
  (\<open>Inr\<close>) or the error it rejects with (\<open>Inl\<close>), and the world it leaves.
\<close>

type_synonym 'a async = "world \<Rightarrow> (js_error + 'a) \<times> world"

definition resolve :: "'a \<Rightarrow> 'a async" where
  "resolve x = (\<lambda>w. (Inr x, w))"

definition reject :: "js_error \<Rightarrow> 'a async" where
  "reject e = (\<lambda>w. (Inl e, w))"

definition await :: "'a async \<Rightarrow> ('a \<Rightarrow> 'b async) \<Rightarrow> 'b async" where
  "await m f = (\<lambda>w. case m w of (Inl e, w') \<Rightarrow> (Inl e, w') | (Inr x, w') \<Rightarrow> f x w')"

definition lift :: "js_error + 'a \<Rightarrow> 'a async" where
  "lift r = (\<lambda>w. (r, w))"

definition try_catch :: "'a async \<Rightarrow> (js_error \<Rightarrow> 'a async) \<Rightarrow> 'a async" where
  "try_catch m handler = (\<lambda>w. case m w of (Inl e, w') \<Rightarrow> handler e w' | (Inr x, w') \<Rightarrow> (Inr x, w'))"

definition try_finally :: "'a async \<Rightarrow> unit async \<Rightarrow> 'a async" where
  "try_finally m finalizer =
     (\<lambda>w. case m w of (r, w') \<Rightarrow>
        (case finalizer w' of (Inl e, w'') \<Rightarrow> (Inl e, w'') | (Inr u, w'') \<Rightarrow> (r, w'')))"

subsection \<open>Host calls\<close>

text \<open>
  Opening and closing the loading modal, showing a notice and \<^verbatim>\<open>console.error\<close> change
  the world and do not throw. The vault and the network fail as the host record says.
\<close>

definition spinner_open :: "unit async" where
  "spinner_open = (\<lambda>w. (Inr (), w\<lparr>open_modals := Suc (open_modals w)\<rparr>))"

definition spinner_close :: "unit async" where
  "spinner_close = (\<lambda>w. (Inr (), w\<lparr>open_modals := open_modals w - 1\<rparr>))"

definition Notice :: "js_string \<Rightarrow> unit async" where
  "Notice msg = (\<lambda>w. (Inr (), w\<lparr>notices := notices w @ [msg]\<rparr>))"

definition console_error :: "js_string \<Rightarrow> js_error \<Rightarrow> unit async" where
  "console_error label err = (\<lambda>w. (Inr (), w\<lparr>console := console w @ [(label, err)]\<rparr>))"

definition vault_read :: "host \<Rightarrow> TFile \<Rightarrow> js_string async" where
  "vault_read h file =
     (\<lambda>w. case read_fault h of Some e \<Rightarrow> (Inl e, w) | None \<Rightarrow> (Inr (vault w (path file)), w))"

definition vault_write :: "TFile \<Rightarrow> js_string \<Rightarrow> unit async" where
  "vault_write file data = (\<lambda>w. (Inr (), w\<lparr>vault := (vault w)(path file := data)\<rparr>))"

definition vault_modify :: "host \<Rightarrow> TFile \<Rightarrow> jsval \<Rightarrow> unit async" where
  "vault_modify h file data =
     (case modify_fault h of
        Some e \<Rightarrow> reject e
      | None \<Rightarrow>
          (case data of
             JStr t \<Rightarrow> vault_write file t
           | v \<Rightarrow> await (lift (nonstring_write h v)) (vault_write file)))"

definition fetch :: "host \<Rightarrow> http_request \<Rightarrow> http_response async" where
  "fetch h req = (\<lambda>w. (fetch_result h, w\<lparr>sent := sent w @ [req]\<rparr>))"

definition res_text :: "http_response \<Rightarrow> js_string async" where
  "res_text res = resolve (body_text res)"

definition res_json :: "http_response \<Rightarrow> jsval async" where
  "res_json res = lift (body_json res)"

section \<open>The two completion calls\<close>

text \<open>
  The argument of \<^verbatim>\<open>fetch\<close>; \<open>body\<close> holds the object handed to \<^verbatim>\<open>JSON.stringify\<close>.
\<close>

definition mistral_request :: "RefinerSettings \<Rightarrow> js_string \<Rightarrow> http_request" where
  "mistral_request st p =
     \<lparr> url = apiUrl st,
       http_method = js ''POST'',
       headers = [(js ''Content-Type'', js ''application/json'')],
       body = JObj
         [(js ''model'', JStr (model st)),
          (js ''messages'', JArr [JObj [(js ''role'', JStr (js ''user'')), (js ''content'', JStr p)]]),
          (js ''max_tokens'', JNum 512),
          (js ''temperature'', JNum (3 / 10))] \<rparr>"

definition openai_request :: "RefinerSettings \<Rightarrow> js_string \<Rightarrow> http_request" where
  "openai_request st p =
     \<lparr> url = apiUrl st,
       http_method = js ''POST'',
       headers = [(js ''Content-Type'', js ''application/json''),
                  (js ''Authorization'', js ''Bearer '' @ apiKey st)],
       body = JObj
         [(js ''model'', JStr (model st)),
          (js ''messages'', JArr [JObj [(js ''role'', JStr (js ''user'')), (js ''content'', JStr p)]]),
          (js ''temperature'', JNum (3 / 10))] \<rparr>"

text \<open>The message of the error thrown on a response that is not ok.\<close>

definition api_error_message :: "http_response \<Rightarrow> js_string \<Rightarrow> js_string" where
  "api_error_message res t =
     js ''API Error: '' @ decimal (status res) @ js '' '' @ statusText res @ js '' - '' @ t"

text \<open>The \<^verbatim>\<open>try\<close> block of \<^verbatim>\<open>callMistral\<close>, and the function with its \<^verbatim>\<open>catch\<close>.\<close>

definition callMistral_try :: "RefinerSettings \<Rightarrow> host \<Rightarrow> js_string \<Rightarrow> jsval async" where
  "callMistral_try st h p =
     await (fetch h (mistral_request st p)) (\<lambda>res.
       if \<not> ok res
       then await (res_text res) (\<lambda>t. reject (Error (api_error_message res t)))
       else await (res_json res) (\<lambda>json.
              await (lift (js_member json (js ''response''))) (\<lambda>v.
                resolve (js_or v JNull))))"

definition callMistral :: "RefinerSettings \<Rightarrow> host \<Rightarrow> js_string \<Rightarrow> jsval async" where
  "callMistral st h p =
     try_catch (callMistral_try st h p)
       (\<lambda>err. await (console_error (js ''Mistral API Error:'') err) (\<lambda>u. resolve JNull))"

text \<open>\<^verbatim>\<open>json.choices?.[0]?.message?.content\<close>, after the plain access \<^verbatim>\<open>json.choices\<close>.\<close>

definition first_choice_content :: "jsval \<Rightarrow> jsval" where
  "first_choice_content choices =
     js_opt_member (js_opt_member (js_opt_index0 choices) (js ''message'')) (js ''content'')"

definition callOpenAI_try :: "RefinerSettings \<Rightarrow> host \<Rightarrow> js_string \<Rightarrow> jsval async" where
  "callOpenAI_try st h p =
     await (fetch h (openai_request st p)) (\<lambda>res.
       if \<not> ok res
       then await (res_text res) (\<lambda>t. reject (Error (api_error_message res t)))
       else await (res_json res) (\<lambda>json.
              await (lift (js_member json (js ''choices''))) (\<lambda>choices.
                resolve (js_or (first_choice_content choices) JNull))))"

definition callOpenAI :: "RefinerSettings \<Rightarrow> host \<Rightarrow> js_string \<Rightarrow> jsval async" where
  "callOpenAI st h p =
     try_catch (callOpenAI_try st h p)
       (\<lambda>err. await (console_error (js ''Refiner Plugin Error:'') err) (\<lambda>u. resolve JNull))"

section \<open>\<^verbatim>\<open>refineNote\<close>\<close>

text \<open>
  The conditional expression of \<^verbatim>\<open>refineNote\<close> that selects the call:
  \<^verbatim>\<open>this.settings.useOllama ? await this.callMistral(prompt) : await this.callOpenAI(prompt)\<close>.
\<close>

definition completion :: "RefinerSettings \<Rightarrow> host \<Rightarrow> js_string \<Rightarrow> jsval async" where
  "completion st h p = (if useOllama st then callMistral st h p else callOpenAI st h p)"

definition refineNote_try :: "RefinerSettings \<Rightarrow> host \<Rightarrow> TFile \<Rightarrow> unit async" where
  "refineNote_try st h file =
     await (vault_read h file) (\<lambda>original.
       await (completion st h (prompt st original)) (\<lambda>refined.
         if js_truthy refined
         then await (vault_modify h file refined) (\<lambda>u.
                Notice (js ''Note refined: '' @ name file))
         else Notice (js ''Failed to refine the note.'')))"

definition refineNote :: "RefinerSettings \<Rightarrow> host \<Rightarrow> TFile \<Rightarrow> unit async" where
  "refineNote st h file =
     await spinner_open (\<lambda>u.
       try_finally
         (try_catch (refineNote_try st h file)
            (\<lambda>err. await (console_error (js ''Refiner Error:'') err) (\<lambda>u.
               Notice (js ''An error occurred while refining the note.''))))
         spinner_close)"

section \<open>Example inputs\<close>

text \<open>
  The end-to-end scenario of the specification: key \<^verbatim>\<open>k\<close>, model \<^verbatim>\<open>m\<close>, endpoint
  \<^verbatim>\<open>https://x/y\<close>, tags \<^verbatim>\<open>#todo\<close>, and a note of two lines.
\<close>

definition scenario_settings :: RefinerSettings where
  "scenario_settings =
     \<lparr> apiKey = js ''k'', model = js ''m'', apiUrl = js ''https://x/y'', tags = js ''#todo'',
       additionalInstructions = js '''', useOllama = False \<rparr>"

definition scenario_file :: TFile where
  "scenario_file = \<lparr> path = js ''notes/list.md'', name = js ''list.md'' \<rparr>"

definition scenario_world :: world where
  "scenario_world =
     \<lparr> vault = (\<lambda>p. if p = js ''notes/list.md'' then js ''buy milk\<newline>call mom'' else js ''''),
       open_modals = 0, notices = [], console = [], sent = [] \<rparr>"

definition response_with :: "nat \<Rightarrow> string \<Rightarrow> string \<Rightarrow> js_error + jsval \<Rightarrow> http_response" where
  "response_with code reason raw parsed =
     \<lparr> status = code, statusText = js reason, body_text = js raw, body_json = parsed \<rparr>"

definition host_with :: "js_error + http_response \<Rightarrow> host" where
  "host_with r =
     \<lparr> read_fault = None, fetch_result = r, modify_fault = None,
       nonstring_write = (\<lambda>v. Inl (TypeError (js ''data is not a string''))) \<rparr>"

definition not_json :: "js_error + jsval" where
  "not_json = Inl (SyntaxError (js ''Unexpected token''))"

definition choices_body :: "jsval \<Rightarrow> jsval" where
  "choices_body v = JObj [(js ''choices'', JArr [JObj [(js ''message'', JObj [(js ''content'', v)])]])]"

definition response_body :: "jsval \<Rightarrow> jsval" where
  "response_body v = JObj [(js ''response'', v)]"

definition host_ok :: host where
  "host_ok = host_with (Inr (response_with 200 ''OK'' ''...'' (Inr (choices_body (JStr (js ''X''))))))"

definition host_500 :: host where
  "host_500 = host_with (Inr (response_with 500 ''Internal Server Error'' ''server error'' not_json))"

text \<open>One host for each way a run can fail.\<close>

definition host_offline :: host where
  "host_offline = host_with (Inl (TypeError (js ''Failed to fetch'')))"

definition host_no_choices :: host where
  "host_no_choices = host_with (Inr (response_with 200 ''OK'' ''{}'' (Inr (JObj []))))"

definition host_garbled :: host where
  "host_garbled = host_with (Inr (response_with 200 ''OK'' ''<html>'' not_json))"

definition host_read_only :: host where
  "host_read_only = host_ok\<lparr>modify_fault := Some (Error (js ''EACCES''))\<rparr>"

definition host_unreadable :: host where
  "host_unreadable = host_ok\<lparr>read_fault := Some (Error (js ''ENOENT''))\<rparr>"

text \<open>Responses for the two request shapes.\<close>

definition ollama_settings :: RefinerSettings where
  "ollama_settings = scenario_settings\<lparr>useOllama := True\<rparr>"

definition host_ollama_ok :: host where
  "host_ollama_ok = host_with (Inr (response_with 200 ''OK'' ''...'' (Inr (response_body (JStr (js ''Y''))))))"

definition host_401 :: host where
  "host_401 = host_with (Inr (response_with 401 ''Unauthorized'' ''denied'' not_json))"

definition host_empty_content :: host where
  "host_empty_content = host_with (Inr (response_with 200 ''OK'' ''...'' (Inr (choices_body (JStr (js ''''))))))"

definition host_empty_response :: host where
  "host_empty_response = host_with (Inr (response_with 200 ''OK'' ''...'' (Inr (response_body (JStr (js ''''))))))"

definition host_number :: host where
  "host_number = host_with (Inr (response_with 200 ''OK'' ''...'' (Inr (response_body (JNum 42)))))"

text \<open>A vault that writes the digits of a number it is handed, and a content that is an array.\<close>

definition host_number_coercing :: host where
  "host_number_coercing = host_number\<lparr>nonstring_write := (\<lambda>v. Inr (js ''42''))\<rparr>"

definition host_array_content :: host where
  "host_array_content = host_with (Inr (response_with 200 ''OK'' ''...'' (Inr (choices_body (JArr [])))))"

section \<open>Properties of the calls\<close>

lemmas async_defs = await_def resolve_def reject_def lift_def try_catch_def try_finally_def

lemmas host_defs = fetch_def res_text_def res_json_def console_error_def Notice_def
  vault_read_def vault_write_def vault_modify_def spinner_open_def spinner_close_def

lemmas example_defs = scenario_settings_def scenario_file_def scenario_world_def
  response_with_def host_with_def not_json_def choices_body_def response_body_def
  host_ok_def host_500_def host_offline_def host_no_choices_def host_garbled_def
  host_read_only_def host_unreadable_def ollama_settings_def host_ollama_ok_def host_401_def
  host_empty_content_def host_empty_response_def host_number_def host_number_coercing_def
  host_array_content_def

lemmas refine_defs = refineNote_def refineNote_try_def

lemmas call_defs = completion_def callMistral_def callMistral_try_def callOpenAI_def
  callOpenAI_try_def first_choice_content_def ok_def js_or_def truthy_string_def

lemma js_or_null:
  "js_or v JNull \<noteq> JStr [] \<and> js_or v JNull \<noteq> JUndefined \<and>
   (js_or v JNull = JNull \<or> js_truthy (js_or v JNull))"
  by (cases v) (auto simp: js_or_def truthy_string_def)

lemma callMistral_shape:
  "\<exists>v w'. callMistral st h p w = (Inr v, w') \<and> vault w' = vault w \<and> open_modals w' = open_modals w
      \<and> notices w' = notices w \<and> sent w' = sent w @ [mistral_request st p]
      \<and> v \<noteq> JStr [] \<and> v \<noteq> JUndefined \<and> (v = JNull \<or> js_truthy v)"
  using js_or_null
  by (auto simp: callMistral_def callMistral_try_def async_defs host_defs split: sum.splits prod.splits)

lemma callOpenAI_shape:
  "\<exists>v w'. callOpenAI st h p w = (Inr v, w') \<and> vault w' = vault w \<and> open_modals w' = open_modals w
      \<and> notices w' = notices w \<and> sent w' = sent w @ [openai_request st p]
      \<and> v \<noteq> JStr [] \<and> v \<noteq> JUndefined \<and> (v = JNull \<or> js_truthy v)"
  using js_or_null
  by (auto simp: callOpenAI_def callOpenAI_try_def async_defs host_defs split: sum.splits prod.splits)

lemma callMistral_fst: "fst (callMistral st h p w) = fst (callMistral st h p w')"
  by (auto simp: callMistral_def callMistral_try_def async_defs host_defs split: sum.splits prod.splits)

lemma callOpenAI_fst: "fst (callOpenAI st h p w) = fst (callOpenAI st h p w')"
  by (auto simp: callOpenAI_def callOpenAI_try_def async_defs host_defs split: sum.splits prod.splits)

lemma completion_shape:
  "\<exists>v w'. completion st h p w = (Inr v, w') \<and> vault w' = vault w \<and> open_modals w' = open_modals w
      \<and> notices w' = notices w
      \<and> sent w' = sent w @ [if useOllama st then mistral_request st p else openai_request st p]
      \<and> v \<noteq> JStr [] \<and> v \<noteq> JUndefined \<and> (v = JNull \<or> js_truthy v)"
  using callMistral_shape [of st h p w] callOpenAI_shape [of st h p w]
  by (simp add: completion_def)

lemma completion_fst: "fst (completion st h p w) = fst (completion st h p w')"
  using callMistral_fst [of st h p w w'] callOpenAI_fst [of st h p w w']
  by (simp add: completion_def)

section \<open>Properties of \<^verbatim>\<open>refineNote\<close>\<close>

lemma vault_modify_fault: "modify_fault h = Some e \<Longrightarrow> vault_modify h file v w = (Inl e, w)"
  by (simp add: vault_modify_def reject_def)

lemma vault_modify_text:
  "modify_fault h = None \<Longrightarrow>
   vault_modify h file (JStr t) w = (Inr (), w\<lparr>vault := (vault w)(path file := t)\<rparr>)"
  by (simp add: vault_modify_def vault_write_def)

lemma vault_modify_nonstring:
  assumes "modify_fault h = None" and "\<forall>s. v \<noteq> JStr s"
  shows "vault_modify h file v w =
           (case nonstring_write h v of
              Inl e \<Rightarrow> (Inl e, w)
            | Inr t \<Rightarrow> (Inr (), w\<lparr>vault := (vault w)(path file := t)\<rparr>))"
  using assms
  by (cases v) (simp_all add: vault_modify_def vault_write_def await_def lift_def split: sum.splits)

lemma vault_modify_keeps:
  "open_modals (snd (vault_modify h file v w)) = open_modals w \<and>
   notices (snd (vault_modify h file v w)) = notices w"
  by (cases v; cases "modify_fault h"; cases "nonstring_write h v")
     (simp_all add: vault_modify_def vault_write_def await_def lift_def reject_def)

lemma refineNote_read_fault:
  assumes "read_fault h = Some e"
  shows "refineNote st h file w =
           (Inr (), w\<lparr>console := console w @ [(js ''Refiner Error:'', e)],
                       notices := notices w @ [js ''An error occurred while refining the note.'']\<rparr>)"
  using assms
  by (simp add: refineNote_def refineNote_try_def async_defs host_defs)

lemma refineNote_after_read:
  assumes "read_fault h = None"
    and "completion st h (prompt st (vault w (path file))) (w\<lparr>open_modals := Suc (open_modals w)\<rparr>)
           = (Inr v, w1)"
  shows "refineNote st h file w =
     (if js_truthy v
      then (case vault_modify h file v w1 of
              (Inl e, w2) \<Rightarrow>
                 (Inr (), w2\<lparr>console := console w2 @ [(js ''Refiner Error:'', e)],
                             notices := notices w2 @ [js ''An error occurred while refining the note.''],
                             open_modals := open_modals w2 - 1\<rparr>)
            | (Inr u, w2) \<Rightarrow>
                 (Inr (), w2\<lparr>notices := notices w2 @ [js ''Note refined: '' @ name file],
                             open_modals := open_modals w2 - 1\<rparr>))
      else (Inr (), w1\<lparr>notices := notices w1 @ [js ''Failed to refine the note.''],
                        open_modals := open_modals w1 - 1\<rparr>))"
  using assms
  by (simp add: refineNote_def refineNote_try_def await_def try_catch_def try_finally_def
        vault_read_def spinner_open_def spinner_close_def Notice_def console_error_def
      split: sum.splits prod.splits)

subsection \<open>What an ok response gives\<close>

lemma callOpenAI_ok:
  assumes "fetch_result h = Inr res" and "ok res" and "body_json res = Inr (JObj kvs)"
  shows "fst (callOpenAI st h p w)
           = Inr (js_or (first_choice_content
                    (case map_of kvs (js ''choices'') of None \<Rightarrow> JUndefined | Some v \<Rightarrow> v)) JNull)"
  using assms
  by (simp add: callOpenAI_def callOpenAI_try_def async_defs host_defs)

lemma callMistral_ok:
  assumes "fetch_result h = Inr res" and "ok res" and "body_json res = Inr (JObj kvs)"
  shows "fst (callMistral st h p w)
           = Inr (js_or (case map_of kvs (js ''response'') of None \<Rightarrow> JUndefined | Some v \<Rightarrow> v) JNull)"
  using assms
  by (simp add: callMistral_def callMistral_try_def async_defs host_defs)

lemma callOpenAI_sent: "sent (snd (callOpenAI st h p w)) = sent w @ [openai_request st p]"
  using callOpenAI_shape [of st h p w] by auto

lemma callMistral_sent: "sent (snd (callMistral st h p w)) = sent w @ [mistral_request st p]"
  using callMistral_shape [of st h p w] by auto

lemma refineNote_null_keeps_vault:
  assumes "fst (completion st h (prompt st (vault w (path file))) w) = Inr JNull"
  shows "vault (snd (refineNote st h file w)) = vault w"
proof (cases "read_fault h")
  case (Some e)
  then show ?thesis by (simp add: refineNote_read_fault)
next
  case None
  let ?p = "prompt st (vault w (path file))"
  let ?w0 = "w\<lparr>open_modals := Suc (open_modals w)\<rparr>"
  obtain v w1 where run: "completion st h ?p ?w0 = (Inr v, w1)" and keep: "vault w1 = vault w"
    using completion_shape [of st h ?p ?w0] by auto
  have "v = JNull"
    using run assms completion_fst [of st h ?p w ?w0] by simp
  then show ?thesis
    using refineNote_after_read [OF None run] keep by simp
qed

section \<open>The claims\<close>

text \<open>
  C1. Every run of \<^verbatim>\<open>refineNote\<close> replaces the note as a whole or leaves it alone. When
  the vault reads and writes without a fault and the completion call returns a text \<open>t\<close>,
  that text is not empty and the body of the file becomes exactly \<open>t\<close>, every other file
  keeping its body. When the read or the write faults, or the call returns \<^verbatim>\<open>null\<close> (a
  failed call, or an empty or missing text), the vault is the one the run started with.
  The call can also return a truthy value that is not a text; \<^verbatim>\<open>vault.modify\<close> is then
  handed that value, and the body becomes what the vault writes for it, or stays as it
  was when the vault refuses it. So after every run the vault is either the one the run
  started with, or that vault with the whole body of this one file replaced by what the
  vault wrote for the truthy result of the call.
\<close>

theorem refineNote_all_or_nothing:
  "(read_fault h = None \<and> modify_fault h = None \<and>
      fst (completion st h (prompt st (vault w (path file))) w) = Inr (JStr t)
      \<longrightarrow> t \<noteq> [] \<and> vault (snd (refineNote st h file w)) = (vault w)(path file := t))
   \<and> (read_fault h \<noteq> None \<or> modify_fault h \<noteq> None \<or>
      fst (completion st h (prompt st (vault w (path file))) w) = Inr JNull
      \<longrightarrow> vault (snd (refineNote st h file w)) = vault w)
   \<and> (read_fault h = None \<and> modify_fault h = None \<and>
      fst (completion st h (prompt st (vault w (path file))) w) = Inr v \<and> v \<noteq> JNull \<and>
      (\<forall>s. v \<noteq> JStr s) \<and> nonstring_write h v = Inr t
      \<longrightarrow> vault (snd (refineNote st h file w)) = (vault w)(path file := t))
   \<and> (fst (completion st h (prompt st (vault w (path file))) w) = Inr v \<and>
      (\<forall>s. v \<noteq> JStr s) \<and> nonstring_write h v = Inl e
      \<longrightarrow> vault (snd (refineNote st h file w)) = vault w)
   \<and> (vault (snd (refineNote st h file w)) = vault w
      \<or> (\<exists>u x. fst (completion st h (prompt st (vault w (path file))) w) = Inr u \<and> js_truthy u
             \<and> (u = JStr x \<or> ((\<forall>s. u \<noteq> JStr s) \<and> nonstring_write h u = Inr x))
             \<and> vault (snd (refineNote st h file w)) = (vault w)(path file := x)))"
proof (cases "read_fault h")
  case (Some e)
  then show ?thesis by (simp add: refineNote_read_fault)
next
  case None
  let ?p = "prompt st (vault w (path file))"
  let ?w0 = "w\<lparr>open_modals := Suc (open_modals w)\<rparr>"
  obtain r w1 where run: "completion st h ?p ?w0 = (Inr r, w1)"
    and keep: "vault w1 = vault w" and ne: "r \<noteq> JStr []"
    and tr: "r = JNull \<or> js_truthy r"
    using completion_shape [of st h ?p ?w0] by auto
  have res: "fst (completion st h ?p w) = Inr r"
    using run completion_fst [of st h ?p w ?w0] by simp
  note eq = refineNote_after_read [OF None run]
  show ?thesis
  proof (cases "modify_fault h")
    case (Some e)
    then show ?thesis
      using eq keep None by (simp add: vault_modify_fault)
  next
    case mf: None
    show ?thesis
    proof (cases "\<exists>s. r = JStr s")
      case True
      then obtain s where s: "r = JStr s" by blast
      then show ?thesis
        using eq keep None mf res ne
        by (auto simp: vault_modify_text truthy_string_def)
    next
      case False
      then have ns: "\<forall>s. r \<noteq> JStr s" by blast
      show ?thesis
      proof (cases "js_truthy r")
        case True
        show ?thesis
          using eq keep None mf res ns True vault_modify_nonstring [OF mf ns, of "file" w1]
          by (cases "nonstring_write h r") auto
      next
        case nt: False
        then have "r = JNull" using tr by blast
        then show ?thesis
          using eq keep None mf res by auto
      qed
    qed
  qed
qed

theorem refineNote_all_or_nothing_witness:
  "vault (snd (refineNote scenario_settings host_ok scenario_file scenario_world))
     = (vault scenario_world)(js ''notes/list.md'' := js ''X'')
   \<and> vault (snd (refineNote scenario_settings host_500 scenario_file scenario_world))
     = vault scenario_world
   \<and> vault (snd (refineNote ollama_settings host_number scenario_file scenario_world))
     = vault scenario_world
   \<and> vault (snd (refineNote ollama_settings host_number_coercing scenario_file scenario_world))
     = (vault scenario_world)(js ''notes/list.md'' := js ''42'')"
proof -
  have good: "read_fault host_ok = None \<and> modify_fault host_ok = None \<and>
      fst (completion scenario_settings host_ok
             (prompt scenario_settings (vault scenario_world (path scenario_file))) scenario_world)
        = Inr (JStr (js ''X''))"
    by (simp add: example_defs call_defs async_defs host_defs js_def)
  have bad: "fst (completion scenario_settings host_500
             (prompt scenario_settings (vault scenario_world (path scenario_file))) scenario_world)
        = Inr JNull"
    by (simp add: example_defs call_defs async_defs host_defs js_def)
  have refused: "fst (completion ollama_settings host_number
             (prompt ollama_settings (vault scenario_world (path scenario_file))) scenario_world)
        = Inr (JNum 42)
      \<and> (\<forall>s. JNum 42 \<noteq> JStr s)
      \<and> nonstring_write host_number (JNum 42) = Inl (TypeError (js ''data is not a string''))"
    by (simp add: example_defs call_defs async_defs host_defs js_def)
  have coerced: "read_fault host_number_coercing = None \<and> modify_fault host_number_coercing = None \<and>
      fst (completion ollama_settings host_number_coercing
             (prompt ollama_settings (vault scenario_world (path scenario_file))) scenario_world)
        = Inr (JNum 42)
      \<and> JNum 42 \<noteq> JNull \<and> (\<forall>s. JNum 42 \<noteq> JStr s)
      \<and> nonstring_write host_number_coercing (JNum 42) = Inr (js ''42'')"
    by (simp add: example_defs call_defs async_defs host_defs js_def)
  have p: "path scenario_file = js ''notes/list.md''"
    by (simp add: scenario_file_def)
  have 1: "vault (snd (refineNote scenario_settings host_ok scenario_file scenario_world))
     = (vault scenario_world)(js ''notes/list.md'' := js ''X'')"
    using good p
      refineNote_all_or_nothing [of host_ok scenario_settings scenario_world scenario_file "js ''X''"]
    by simp
  have 2: "vault (snd (refineNote scenario_settings host_500 scenario_file scenario_world))
     = vault scenario_world"
    using bad
      refineNote_all_or_nothing [of host_500 scenario_settings scenario_world scenario_file "js ''X''"]
    by simp
  have 3: "vault (snd (refineNote ollama_settings host_number scenario_file scenario_world))
     = vault scenario_world"
    using refused
      refineNote_all_or_nothing [of host_number ollama_settings scenario_world scenario_file
        "js ''X''" "JNum 42" "TypeError (js ''data is not a string'')"]
    by simp
  have 4: "vault (snd (refineNote ollama_settings host_number_coercing scenario_file scenario_world))
     = (vault scenario_world)(js ''notes/list.md'' := js ''42'')"
    using coerced p
      refineNote_all_or_nothing [of host_number_coercing ollama_settings scenario_world scenario_file
        "js ''42''" "JNum 42"]
    by simp
  show ?thesis using 1 2 3 4 by blast
qed

text \<open>
  C2. The prompt is the base instructions, the tag clause, the additional-instructions
  clause, the note marker and the note, in this order, each clause followed by the line
  break of the template. What precedes the note does not depend on the note, so the note
  is a suffix of the prompt whatever it contains.
\<close>

theorem prompt_order_and_body_suffix:
  "prompt st original
     = (baseInstructions @ js ''\<newline>'') @ (tag_clause st @ js ''\<newline>'')
       @ (additional_clause st @ js ''\<newline>'') @ note_marker @ original
   \<and> prompt st original = prompt st [] @ original
   \<and> suffix original (prompt st original)
   \<and> prefix baseInstructions (prompt st original)"
  by (simp add: prompt_def suffix_def)

theorem prompt_order_and_body_suffix_witness:
  "prompt scenario_settings (js ''buy milk\<newline>call mom'')
     = baseInstructions @ js ''\<newline>\<newline>- If any content fits the following tags, add them where appropriate (e.g. headers, checklists). Doesn't just have to be for headers, can be at any point in the document: #todo\<newline>\<newline>\<newline>\<newline>### Note:\<newline>buy milk\<newline>call mom''
   \<and> suffix (js ''---\<newline>### Note:\<newline>```'')
        (prompt scenario_settings (js ''---\<newline>### Note:\<newline>```''))"
proof -
  note scenario = prompt_order_and_body_suffix [of scenario_settings "js ''buy milk\<newline>call mom''"]
  note markers = prompt_order_and_body_suffix [of scenario_settings "js ''---\<newline>### Note:\<newline>```''"]
  have "prompt scenario_settings (js ''buy milk\<newline>call mom'')
     = baseInstructions @ js ''\<newline>\<newline>- If any content fits the following tags, add them where appropriate (e.g. headers, checklists). Doesn't just have to be for headers, can be at any point in the document: #todo\<newline>\<newline>\<newline>\<newline>### Note:\<newline>buy milk\<newline>call mom''"
    using scenario [THEN conjunct1]
    by (simp add: scenario_settings_def tag_clause_def tagInstruction_def additional_clause_def
        note_marker_def truthy_string_def trim_def is_whitespace_def js_def)
  moreover have "suffix (js ''---\<newline>### Note:\<newline>```'')
        (prompt scenario_settings (js ''---\<newline>### Note:\<newline>```''))"
    using markers by blast
  ultimately show ?thesis by blast
qed

text \<open>
  C3. With \<open>useOllama\<close> false the call sends one POST to \<open>apiUrl\<close> with the header
  \<^verbatim>\<open>Authorization: Bearer <apiKey>\<close> and the body \<^verbatim>\<open>{model, messages: [{role: "user",
  content: prompt}], temperature: 0.3}\<close>. On an ok response whose first choice has a message
  with a non-empty text as content, the call resolves to that text. When \<^verbatim>\<open>content\<close>,
  \<^verbatim>\<open>message\<close>, the first choice or \<^verbatim>\<open>choices\<close> is missing, it resolves to \<^verbatim>\<open>null\<close>; it
  does not reject.
\<close>

theorem standard_shape_call:
  "(\<not> useOllama st \<longrightarrow>
      sent (snd (completion st h p w))
        = sent w @
          [\<lparr> url = apiUrl st,
              http_method = js ''POST'',
              headers = [(js ''Content-Type'', js ''application/json''),
                         (js ''Authorization'', js ''Bearer '' @ apiKey st)],
              body = JObj
                [(js ''model'', JStr (model st)),
                 (js ''messages'', JArr [JObj [(js ''role'', JStr (js ''user'')), (js ''content'', JStr p)]]),
                 (js ''temperature'', JNum (3 / 10))] \<rparr>])
   \<and> (\<not> useOllama st \<and> fetch_result h = Inr res \<and> ok res \<and> body_json res = Inr (JObj kvs)
        \<and> map_of kvs (js ''choices'') = Some (JArr (JObj c # cs))
        \<and> map_of c (js ''message'') = Some (JObj m)
        \<and> map_of m (js ''content'') = Some (JStr t) \<and> t \<noteq> []
      \<longrightarrow> fst (completion st h p w) = Inr (JStr t))
   \<and> (\<not> useOllama st \<and> fetch_result h = Inr res \<and> ok res \<and> body_json res = Inr (JObj kvs)
        \<and> map_of kvs (js ''choices'') = Some (JArr (JObj c # cs))
        \<and> map_of c (js ''message'') = Some (JObj m)
        \<and> map_of m (js ''content'') = None
      \<longrightarrow> fst (completion st h p w) = Inr JNull)
   \<and> (\<not> useOllama st \<and> fetch_result h = Inr res \<and> ok res \<and> body_json res = Inr (JObj kvs)
        \<and> map_of kvs (js ''choices'') = Some (JArr (JObj c # cs))
        \<and> map_of c (js ''message'') = None
      \<longrightarrow> fst (completion st h p w) = Inr JNull)
   \<and> (\<not> useOllama st \<and> fetch_result h = Inr res \<and> ok res \<and> body_json res = Inr (JObj kvs)
        \<and> map_of kvs (js ''choices'') = Some (JArr [])
      \<longrightarrow> fst (completion st h p w) = Inr JNull)
   \<and> (\<not> useOllama st \<and> fetch_result h = Inr res \<and> ok res \<and> body_json res = Inr (JObj kvs)
        \<and> map_of kvs (js ''choices'') = None
      \<longrightarrow> fst (completion st h p w) = Inr JNull)"
  using callOpenAI_ok [of h res kvs st p w] callOpenAI_sent [of st h p w]
  by (auto simp: completion_def openai_request_def first_choice_content_def js_or_def truthy_string_def)

theorem standard_shape_call_witness:
  "sent (snd (completion scenario_settings host_ok (js ''hi'') scenario_world))
     = [\<lparr> url = js ''https://x/y'',
           http_method = js ''POST'',
           headers = [(js ''Content-Type'', js ''application/json''),
                      (js ''Authorization'', js ''Bearer k'')],
           body = JObj
             [(js ''model'', JStr (js ''m'')),
              (js ''messages'', JArr [JObj [(js ''role'', JStr (js ''user'')), (js ''content'', JStr (js ''hi''))]]),
              (js ''temperature'', JNum (3 / 10))] \<rparr>]
   \<and> fst (completion scenario_settings host_ok (js ''hi'') scenario_world) = Inr (JStr (js ''X''))
   \<and> fst (completion scenario_settings host_no_choices (js ''hi'') scenario_world) = Inr JNull"
proof -
  have flag: "\<not> useOllama scenario_settings" and none: "sent scenario_world = []"
    by (simp_all add: scenario_settings_def scenario_world_def)
  have good: "fetch_result host_ok
        = Inr (response_with 200 ''OK'' ''...'' (Inr (choices_body (JStr (js ''X'')))))
      \<and> ok (response_with 200 ''OK'' ''...'' (Inr (choices_body (JStr (js ''X'')))))
      \<and> body_json (response_with 200 ''OK'' ''...'' (Inr (choices_body (JStr (js ''X'')))))
        = Inr (JObj [(js ''choices'', JArr [JObj [(js ''message'', JObj [(js ''content'', JStr (js ''X''))])]])])
      \<and> map_of [(js ''choices'', JArr [JObj [(js ''message'', JObj [(js ''content'', JStr (js ''X''))])]])]
            (js ''choices'')
        = Some (JArr (JObj [(js ''message'', JObj [(js ''content'', JStr (js ''X''))])] # []))
      \<and> map_of [(js ''message'', JObj [(js ''content'', JStr (js ''X''))])] (js ''message'')
        = Some (JObj [(js ''content'', JStr (js ''X''))])
      \<and> map_of [(js ''content'', JStr (js ''X''))] (js ''content'') = Some (JStr (js ''X''))
      \<and> js ''X'' \<noteq> []"
    by (simp add: example_defs ok_def js_def)
  have missing: "fetch_result host_no_choices = Inr (response_with 200 ''OK'' ''{}'' (Inr (JObj [])))
      \<and> ok (response_with 200 ''OK'' ''{}'' (Inr (JObj [])))
      \<and> body_json (response_with 200 ''OK'' ''{}'' (Inr (JObj []))) = Inr (JObj [])
      \<and> map_of ([] :: (js_string \<times> jsval) list) (js ''choices'') = None"
    by (simp add: example_defs ok_def)
  show ?thesis
    using flag none good missing
      standard_shape_call [of scenario_settings host_ok "js ''hi''" scenario_world
        "response_with 200 ''OK'' ''...'' (Inr (choices_body (JStr (js ''X''))))"
        "[(js ''choices'', JArr [JObj [(js ''message'', JObj [(js ''content'', JStr (js ''X''))])]])]"
        "[(js ''message'', JObj [(js ''content'', JStr (js ''X''))])]" "[]"
        "[(js ''content'', JStr (js ''X''))]" "js ''X''"]
      standard_shape_call [of scenario_settings host_no_choices "js ''hi''" scenario_world
        "response_with 200 ''OK'' ''{}'' (Inr (JObj []))" "[]"]
    by (simp add: scenario_settings_def js_def)
qed

text \<open>
  C4. With \<open>useOllama\<close> true the call sends one POST to \<open>apiUrl\<close> whose only header is the
  content type (no \<^verbatim>\<open>Authorization\<close>) and whose body is \<^verbatim>\<open>{model, messages: [{role:
  "user", content: prompt}], max_tokens: 512, temperature: 0.3}\<close>. On an ok response whose
  top-level \<^verbatim>\<open>response\<close> is a non-empty text, the call resolves to that text; when the
  field is missing it resolves to \<^verbatim>\<open>null\<close>.
\<close>

theorem alternate_shape_call:
  "(useOllama st \<longrightarrow>
      sent (snd (completion st h p w))
        = sent w @
          [\<lparr> url = apiUrl st,
              http_method = js ''POST'',
              headers = [(js ''Content-Type'', js ''application/json'')],
              body = JObj
                [(js ''model'', JStr (model st)),
                 (js ''messages'', JArr [JObj [(js ''role'', JStr (js ''user'')), (js ''content'', JStr p)]]),
                 (js ''max_tokens'', JNum 512),
                 (js ''temperature'', JNum (3 / 10))] \<rparr>])
   \<and> (useOllama st \<and> fetch_result h = Inr res \<and> ok res \<and> body_json res = Inr (JObj kvs)
        \<and> map_of kvs (js ''response'') = Some (JStr t) \<and> t \<noteq> []
      \<longrightarrow> fst (completion st h p w) = Inr (JStr t))
   \<and> (useOllama st \<and> fetch_result h = Inr res \<and> ok res \<and> body_json res = Inr (JObj kvs)
        \<and> map_of kvs (js ''response'') = None
      \<longrightarrow> fst (completion st h p w) = Inr JNull)"
  using callMistral_ok [of h res kvs st p w] callMistral_sent [of st h p w]
  by (auto simp: completion_def mistral_request_def js_or_def truthy_string_def)

theorem alternate_shape_call_witness:
  "sent (snd (completion ollama_settings host_ollama_ok (js ''hi'') scenario_world))
     = [\<lparr> url = js ''https://x/y'',
           http_method = js ''POST'',
           headers = [(js ''Content-Type'', js ''application/json'')],
           body = JObj
             [(js ''model'', JStr (js ''m'')),
              (js ''messages'', JArr [JObj [(js ''role'', JStr (js ''user'')), (js ''content'', JStr (js ''hi''))]]),
              (js ''max_tokens'', JNum 512),
              (js ''temperature'', JNum (3 / 10))] \<rparr>]
   \<and> fst (completion ollama_settings host_ollama_ok (js ''hi'') scenario_world) = Inr (JStr (js ''Y''))
   \<and> fst (completion ollama_settings host_no_choices (js ''hi'') scenario_world) = Inr JNull"
proof -
  have flag: "useOllama ollama_settings" and none: "sent scenario_world = []"
    by (simp_all add: ollama_settings_def scenario_world_def)
  have good: "fetch_result host_ollama_ok
        = Inr (response_with 200 ''OK'' ''...'' (Inr (response_body (JStr (js ''Y'')))))
      \<and> ok (response_with 200 ''OK'' ''...'' (Inr (response_body (JStr (js ''Y'')))))
      \<and> body_json (response_with 200 ''OK'' ''...'' (Inr (response_body (JStr (js ''Y'')))))
        = Inr (JObj [(js ''response'', JStr (js ''Y''))])
      \<and> map_of [(js ''response'', JStr (js ''Y''))] (js ''response'') = Some (JStr (js ''Y''))
      \<and> js ''Y'' \<noteq> []"
    by (simp add: example_defs ok_def js_def)
  have missing: "fetch_result host_no_choices = Inr (response_with 200 ''OK'' ''{}'' (Inr (JObj [])))
      \<and> ok (response_with 200 ''OK'' ''{}'' (Inr (JObj [])))
      \<and> body_json (response_with 200 ''OK'' ''{}'' (Inr (JObj []))) = Inr (JObj [])
      \<and> map_of ([] :: (js_string \<times> jsval) list) (js ''response'') = None"
    by (simp add: example_defs ok_def)
  show ?thesis
    using flag none good missing
      alternate_shape_call [of ollama_settings host_ollama_ok "js ''hi''" scenario_world
        "response_with 200 ''OK'' ''...'' (Inr (response_body (JStr (js ''Y''))))"
        "[(js ''response'', JStr (js ''Y''))]" "js ''Y''"]
      alternate_shape_call [of ollama_settings host_no_choices "js ''hi''" scenario_world
        "response_with 200 ''OK'' ''{}'' (Inr (JObj []))" "[]"]
    by (simp add: ollama_settings_def scenario_settings_def)
qed



text \<open>
  C6, as stated, fails: the clause does not reference the trimmed tags. For the stored tags
  \<^verbatim>\<open>" #todo"\<close> (a leading space, trimmed \<^verbatim>\<open>"#todo"\<close>) the clause ends in the stored text,
  with its space, and is not the clause over the trimmed text.
\<close>

theorem tag_clause_counterexample:
  "trim (js '' #todo'') = js ''#todo''
   \<and> tag_clause (scenario_settings\<lparr>tags := js '' #todo''\<rparr>)
       = js ''\<newline>- If any content fits the following tags, add them where appropriate (e.g. headers, checklists). Doesn't just have to be for headers, can be at any point in the document:  #todo''
   \<and> tag_clause (scenario_settings\<lparr>tags := js '' #todo''\<rparr>)
       \<noteq> js ''\<newline>- If any content fits the following tags, add them where appropriate (e.g. headers, checklists). Doesn't just have to be for headers, can be at any point in the document: '' @ trim (js '' #todo'')"
  by (simp add: scenario_settings_def tag_clause_def tagInstruction_def truthy_string_def trim_def
        is_whitespace_def js_def)

text \<open>
  C6, amended. When the tags are not empty after trimming, the prompt has, right after the
  base instructions, the tag clause over the tags as they are stored; this is the trimmed
  text when the stored text has no white space at its ends (the settings tab stores it
  trimmed). When the tags are empty or white space only, nothing stands between the base
  instructions and the additional-instructions clause but the two line breaks of the
  template.
\<close>

theorem tag_clause_in_prompt:
  "(trim (tags st) \<noteq> [] \<longrightarrow>
      prompt st original
        = baseInstructions @ js ''\<newline>''
          @ (js ''\<newline>- If any content fits the following tags, add them where appropriate (e.g. headers, checklists). Doesn't just have to be for headers, can be at any point in the document: '' @ tags st)
          @ js ''\<newline>'' @ additional_clause st @ js ''\<newline>'' @ note_marker @ original)
   \<and> (trim (tags st) \<noteq> [] \<and> trim (tags st) = tags st \<longrightarrow>
      prompt st original
        = baseInstructions @ js ''\<newline>''
          @ (js ''\<newline>- If any content fits the following tags, add them where appropriate (e.g. headers, checklists). Doesn't just have to be for headers, can be at any point in the document: '' @ trim (tags st))
          @ js ''\<newline>'' @ additional_clause st @ js ''\<newline>'' @ note_marker @ original)
   \<and> (trim (tags st) = [] \<longrightarrow>
      prompt st original
        = baseInstructions @ js ''\<newline>'' @ js ''\<newline>'' @ additional_clause st
          @ js ''\<newline>'' @ note_marker @ original)"
  by (simp add: prompt_def tag_clause_def tagInstruction_def truthy_string_def js_def)

theorem tag_clause_in_prompt_witness:
  "prompt scenario_settings (js ''x'')
     = baseInstructions @ js ''\<newline>\<newline>- If any content fits the following tags, add them where appropriate (e.g. headers, checklists). Doesn't just have to be for headers, can be at any point in the document: #todo\<newline>\<newline>\<newline>\<newline>### Note:\<newline>x''
   \<and> prompt (scenario_settings\<lparr>tags := js '' #todo''\<rparr>) (js ''x'')
     = baseInstructions @ js ''\<newline>\<newline>- If any content fits the following tags, add them where appropriate (e.g. headers, checklists). Doesn't just have to be for headers, can be at any point in the document:  #todo\<newline>\<newline>\<newline>\<newline>### Note:\<newline>x''
   \<and> prompt (scenario_settings\<lparr>tags := js ''  ''\<rparr>) (js ''x'')
     = baseInstructions @ js ''\<newline>\<newline>\<newline>\<newline>\<newline>### Note:\<newline>x''"
proof -
  have trimmed: "trim (tags scenario_settings) \<noteq> [] \<and> trim (tags scenario_settings) = tags scenario_settings"
    by (simp add: scenario_settings_def trim_def is_whitespace_def js_def)
  have padded: "trim (tags (scenario_settings\<lparr>tags := js '' #todo''\<rparr>)) \<noteq> []"
    by (simp add: trim_def is_whitespace_def js_def)
  have blank: "trim (tags (scenario_settings\<lparr>tags := js ''  ''\<rparr>)) = []"
    by (simp add: trim_def is_whitespace_def js_def)
  have 1: "prompt scenario_settings (js ''x'')
     = baseInstructions @ js ''\<newline>\<newline>- If any content fits the following tags, add them where appropriate (e.g. headers, checklists). Doesn't just have to be for headers, can be at any point in the document: #todo\<newline>\<newline>\<newline>\<newline>### Note:\<newline>x''"
    using trimmed tag_clause_in_prompt [of scenario_settings "js ''x''"]
    by (simp add: scenario_settings_def additional_clause_def note_marker_def truthy_string_def
          trim_def is_whitespace_def js_def)
  have 2: "prompt (scenario_settings\<lparr>tags := js '' #todo''\<rparr>) (js ''x'')
     = baseInstructions @ js ''\<newline>\<newline>- If any content fits the following tags, add them where appropriate (e.g. headers, checklists). Doesn't just have to be for headers, can be at any point in the document:  #todo\<newline>\<newline>\<newline>\<newline>### Note:\<newline>x''"
    using padded tag_clause_in_prompt [of "scenario_settings\<lparr>tags := js '' #todo''\<rparr>" "js ''x''"]
    by (simp add: scenario_settings_def additional_clause_def note_marker_def truthy_string_def
          trim_def is_whitespace_def js_def)
  have 3: "prompt (scenario_settings\<lparr>tags := js ''  ''\<rparr>) (js ''x'')
     = baseInstructions @ js ''\<newline>\<newline>\<newline>\<newline>\<newline>### Note:\<newline>x''"
    using blank tag_clause_in_prompt [of "scenario_settings\<lparr>tags := js ''  ''\<rparr>" "js ''x''"]
    by (simp add: scenario_settings_def additional_clause_def note_marker_def truthy_string_def
          trim_def is_whitespace_def js_def)
  show ?thesis using 1 2 3 by blast
qed

text \<open>
  C7. The claim asks that additional instructions that are white space only add nothing to
  the prompt. The code tests the stored text for truthiness without trimming it, which the
  test on the tags does: for the stored text \<^verbatim>\<open>" "\<close> the prompt carries the marker
  \<^verbatim>\<open>Additional Instructions:\<close> and the space, while tags of \<^verbatim>\<open>" "\<close> add no clause.
\<close>

theorem additional_clause_whitespace_only:
  "trim (js '' '') = []
   \<and> prompt (scenario_settings\<lparr>additionalInstructions := js '' ''\<rparr>) (js ''x'')
     = baseInstructions @ js ''\<newline>\<newline>- If any content fits the following tags, add them where appropriate (e.g. headers, checklists). Doesn't just have to be for headers, can be at any point in the document: #todo\<newline>\<newline>\<newline>Additional Instructions:\<newline> \<newline>\<newline>\<newline>### Note:\<newline>x''
   \<and> prompt (scenario_settings\<lparr>tags := js '' ''\<rparr>) (js ''x'')
     = baseInstructions @ js ''\<newline>\<newline>\<newline>\<newline>\<newline>### Note:\<newline>x''"
  by (simp add: prompt_def scenario_settings_def tag_clause_def tagInstruction_def
        additional_clause_def note_marker_def truthy_string_def trim_def is_whitespace_def js_def)

text \<open>
  C8, as stated, fails: the result of a call need not be a text or \<^verbatim>\<open>null\<close>. The body is
  parsed as \<^verbatim>\<open>any\<close> and the field is returned when it is truthy, whatever its type: for
  the ok response \<^verbatim>\<open>{"response": 42}\<close> the call resolves to the number 42.
\<close>

theorem completion_number_counterexample:
  "fst (completion ollama_settings host_number (js ''hi'') scenario_world) = Inr (JNum 42)"
  by (simp add: example_defs call_defs async_defs host_defs js_def)

text \<open>
  C8, amended. In both shapes the call resolves, to \<^verbatim>\<open>null\<close> or to a truthy value, never
  to the empty string. The value is read from the expected field of an ok response
  (\<^verbatim>\<open>response\<close>, or \<^verbatim>\<open>choices[0].message.content\<close>): a truthy value there, of any type
  (a non-empty text, a number other than 0, \<^verbatim>\<open>true\<close>, an array, an object), is returned
  as it is; a falsy value (the empty text, 0, \<^verbatim>\<open>false\<close>, \<^verbatim>\<open>null\<close>) or a missing field
  gives \<^verbatim>\<open>null\<close>. A run of \<^verbatim>\<open>refineNote\<close> whose call resolves to \<^verbatim>\<open>null\<close> leaves the
  vault as it was.
\<close>

theorem completion_never_empty_text:
  "(\<exists>v. fst (completion st h p w) = Inr v \<and> v \<noteq> JStr [] \<and> (v = JNull \<or> js_truthy v))
   \<and> (useOllama st \<and> fetch_result h = Inr res \<and> ok res \<and> body_json res = Inr (JObj kvs)
        \<and> map_of kvs (js ''response'') = Some (JStr s)
      \<longrightarrow> fst (completion st h p w) = Inr (if s = [] then JNull else JStr s))
   \<and> (\<not> useOllama st \<and> fetch_result h = Inr res \<and> ok res \<and> body_json res = Inr (JObj kvs)
        \<and> map_of kvs (js ''choices'') = Some (JArr (JObj c # cs))
        \<and> map_of c (js ''message'') = Some (JObj m)
        \<and> map_of m (js ''content'') = Some (JStr s)
      \<longrightarrow> fst (completion st h p w) = Inr (if s = [] then JNull else JStr s))
   \<and> (fst (completion st h (prompt st (vault w (path file))) w) = Inr JNull
      \<longrightarrow> vault (snd (refineNote st h file w)) = vault w)
   \<and> (useOllama st \<and> fetch_result h = Inr res \<and> ok res \<and> body_json res = Inr (JObj kvs)
        \<and> map_of kvs (js ''response'') = Some v
        \<and> (v = JBool True \<or> (\<exists>x. x \<noteq> 0 \<and> v = JNum x) \<or> (\<exists>t. t \<noteq> [] \<and> v = JStr t)
             \<or> (\<exists>xs. v = JArr xs) \<or> (\<exists>fs. v = JObj fs))
      \<longrightarrow> fst (completion st h p w) = Inr v)
   \<and> (useOllama st \<and> fetch_result h = Inr res \<and> ok res \<and> body_json res = Inr (JObj kvs)
        \<and> map_of kvs (js ''response'') = Some v
        \<and> (v = JUndefined \<or> v = JNull \<or> v = JBool False \<or> v = JNum 0 \<or> v = JStr [])
      \<longrightarrow> fst (completion st h p w) = Inr JNull)
   \<and> (useOllama st \<and> fetch_result h = Inr res \<and> ok res \<and> body_json res = Inr (JObj kvs)
        \<and> map_of kvs (js ''response'') = None
      \<longrightarrow> fst (completion st h p w) = Inr JNull)
   \<and> (\<not> useOllama st \<and> fetch_result h = Inr res \<and> ok res \<and> body_json res = Inr (JObj kvs)
        \<and> map_of kvs (js ''choices'') = Some (JArr (JObj c # cs))
        \<and> map_of c (js ''message'') = Some (JObj m)
        \<and> map_of m (js ''content'') = Some v
        \<and> (v = JBool True \<or> (\<exists>x. x \<noteq> 0 \<and> v = JNum x) \<or> (\<exists>t. t \<noteq> [] \<and> v = JStr t)
             \<or> (\<exists>xs. v = JArr xs) \<or> (\<exists>fs. v = JObj fs))
      \<longrightarrow> fst (completion st h p w) = Inr v)
   \<and> (\<not> useOllama st \<and> fetch_result h = Inr res \<and> ok res \<and> body_json res = Inr (JObj kvs)
        \<and> map_of kvs (js ''choices'') = Some (JArr (JObj c # cs))
        \<and> map_of c (js ''message'') = Some (JObj m)
        \<and> map_of m (js ''content'') = Some v
        \<and> (v = JUndefined \<or> v = JNull \<or> v = JBool False \<or> v = JNum 0 \<or> v = JStr [])
      \<longrightarrow> fst (completion st h p w) = Inr JNull)
   \<and> (\<not> useOllama st \<and> fetch_result h = Inr res \<and> ok res \<and> body_json res = Inr (JObj kvs)
        \<and> map_of kvs (js ''choices'') = Some (JArr (JObj c # cs))
        \<and> map_of c (js ''message'') = Some (JObj m)
        \<and> map_of m (js ''content'') = None
      \<longrightarrow> fst (completion st h p w) = Inr JNull)"
proof (intro conjI)
  show "\<exists>v. fst (completion st h p w) = Inr v \<and> v \<noteq> JStr [] \<and> (v = JNull \<or> js_truthy v)"
    using completion_shape [of st h p w] by auto
next
  show "fst (completion st h (prompt st (vault w (path file))) w) = Inr JNull
      \<longrightarrow> vault (snd (refineNote st h file w)) = vault w"
    using refineNote_null_keeps_vault by blast
qed (use callMistral_ok [of h res kvs st p w] callOpenAI_ok [of h res kvs st p w] in
      \<open>auto simp: completion_def first_choice_content_def js_or_def truthy_string_def\<close>)

theorem completion_never_empty_text_witness:
  "fst (completion ollama_settings host_empty_response (js ''hi'') scenario_world) = Inr JNull
   \<and> fst (completion scenario_settings host_empty_content (js ''hi'') scenario_world) = Inr JNull
   \<and> fst (completion ollama_settings host_ollama_ok (js ''hi'') scenario_world) = Inr (JStr (js ''Y''))
   \<and> vault (snd (refineNote ollama_settings host_empty_response scenario_file scenario_world))
       = vault scenario_world
   \<and> fst (completion ollama_settings host_number (js ''hi'') scenario_world) = Inr (JNum 42)
   \<and> fst (completion scenario_settings host_array_content (js ''hi'') scenario_world) = Inr (JArr [])"
proof -
  have a: "useOllama ollama_settings \<and>
      fetch_result host_empty_response
        = Inr (response_with 200 ''OK'' ''...'' (Inr (response_body (JStr (js '''')))))
      \<and> ok (response_with 200 ''OK'' ''...'' (Inr (response_body (JStr (js '''')))))
      \<and> body_json (response_with 200 ''OK'' ''...'' (Inr (response_body (JStr (js '''')))))
        = Inr (JObj [(js ''response'', JStr (js ''''))])
      \<and> map_of [(js ''response'', JStr (js ''''))] (js ''response'') = Some (JStr (js ''''))"
    by (simp add: example_defs ok_def)
  note empty_response =
    completion_never_empty_text [of ollama_settings host_empty_response _ scenario_world
      "response_with 200 ''OK'' ''...'' (Inr (response_body (JStr (js ''''))))"
      "[(js ''response'', JStr (js ''''))]" "js ''''" _ _ _ scenario_file]
  have 1: "fst (completion ollama_settings host_empty_response (js ''hi'') scenario_world) = Inr JNull"
    using a empty_response [of "js ''hi''"] by (simp add: js_def)
  have 4: "vault (snd (refineNote ollama_settings host_empty_response scenario_file scenario_world))
       = vault scenario_world"
    using a empty_response [of "prompt ollama_settings (vault scenario_world (path scenario_file))"]
    by (simp add: js_def)
  have 2: "fst (completion scenario_settings host_empty_content (js ''hi'') scenario_world) = Inr JNull"
    by (simp add: example_defs call_defs async_defs host_defs js_def)
  have 3: "fst (completion ollama_settings host_ollama_ok (js ''hi'') scenario_world) = Inr (JStr (js ''Y''))"
    by (simp add: example_defs call_defs async_defs host_defs js_def)
  have n: "useOllama ollama_settings \<and>
      fetch_result host_number = Inr (response_with 200 ''OK'' ''...'' (Inr (response_body (JNum 42))))
      \<and> ok (response_with 200 ''OK'' ''...'' (Inr (response_body (JNum 42))))
      \<and> body_json (response_with 200 ''OK'' ''...'' (Inr (response_body (JNum 42))))
        = Inr (JObj [(js ''response'', JNum 42)])
      \<and> map_of [(js ''response'', JNum 42)] (js ''response'') = Some (JNum 42)
      \<and> (42 :: rat) \<noteq> 0"
    by (simp add: example_defs ok_def)
  have 5: "fst (completion ollama_settings host_number (js ''hi'') scenario_world) = Inr (JNum 42)"
    using n
      completion_never_empty_text [of ollama_settings host_number "js ''hi''" scenario_world
        "response_with 200 ''OK'' ''...'' (Inr (response_body (JNum 42)))"
        "[(js ''response'', JNum 42)]" _ _ _ _ _ "JNum 42"]
    by simp
  have r: "\<not> useOllama scenario_settings \<and>
      fetch_result host_array_content
        = Inr (response_with 200 ''OK'' ''...'' (Inr (choices_body (JArr []))))
      \<and> ok (response_with 200 ''OK'' ''...'' (Inr (choices_body (JArr []))))
      \<and> body_json (response_with 200 ''OK'' ''...'' (Inr (choices_body (JArr []))))
        = Inr (JObj [(js ''choices'', JArr [JObj [(js ''message'', JObj [(js ''content'', JArr [])])]])])
      \<and> map_of [(js ''choices'', JArr [JObj [(js ''message'', JObj [(js ''content'', JArr [])])]])]
            (js ''choices'')
        = Some (JArr (JObj [(js ''message'', JObj [(js ''content'', JArr [])])] # []))
      \<and> map_of [(js ''message'', JObj [(js ''content'', JArr [])])] (js ''message'')
        = Some (JObj [(js ''content'', JArr [])])
      \<and> map_of [(js ''content'', JArr [])] (js ''content'') = Some (JArr [])"
    by (simp add: example_defs ok_def)
  have 6: "fst (completion scenario_settings host_array_content (js ''hi'') scenario_world) = Inr (JArr [])"
    using r
      completion_never_empty_text [of scenario_settings host_array_content "js ''hi''" scenario_world
        "response_with 200 ''OK'' ''...'' (Inr (choices_body (JArr [])))"
        "[(js ''choices'', JArr [JObj [(js ''message'', JObj [(js ''content'', JArr [])])]])]" _
        "[(js ''message'', JObj [(js ''content'', JArr [])])]" "[]"
        "[(js ''content'', JArr [])]" _ "JArr []"]
    by simp
  show ?thesis using 1 2 3 4 5 6 by blast
qed

text \<open>
  C9. The loading modal opened at the start of \<^verbatim>\<open>refineNote\<close> is closed on every exit
  path. The construct itself releases it whatever its body does, also when the body
  rejects: after \<^verbatim>\<open>open\<close>, \<^verbatim>\<open>try { m } finally { close }\<close> leaves one modal fewer open
  than \<open>m\<close> left. For \<^verbatim>\<open>refineNote\<close>, with any settings, host behaviour, file and
  world, as many modals are open after the run as before it.
\<close>

theorem busy_indicator_released:
  "open_modals (snd (await spinner_open (\<lambda>u. try_finally m spinner_close) w))
     = open_modals (snd (m (w\<lparr>open_modals := Suc (open_modals w)\<rparr>))) - 1
   \<and> open_modals (snd (refineNote st h file w)) = open_modals w"
proof
  show "open_modals (snd (await spinner_open (\<lambda>u. try_finally m spinner_close) w))
     = open_modals (snd (m (w\<lparr>open_modals := Suc (open_modals w)\<rparr>))) - 1"
    by (simp add: await_def spinner_open_def try_finally_def spinner_close_def split: prod.splits)
next
  show "open_modals (snd (refineNote st h file w)) = open_modals w"
  proof (cases "read_fault h")
    case (Some e)
    then show ?thesis by (simp add: refineNote_read_fault)
  next
    case None
    let ?p = "prompt st (vault w (path file))"
    let ?w0 = "w\<lparr>open_modals := Suc (open_modals w)\<rparr>"
    obtain v w1 where run: "completion st h ?p ?w0 = (Inr v, w1)"
      and keep: "open_modals w1 = Suc (open_modals w)"
      using completion_shape [of st h ?p ?w0] by auto
    show ?thesis
      using refineNote_after_read [OF None run] keep vault_modify_keeps [of h "file" v w1]
      by (auto split: prod.splits sum.splits)
  qed
qed

theorem busy_indicator_released_witness:
  "open_modals (snd (refineNote scenario_settings host_ok scenario_file scenario_world)) = 0
   \<and> open_modals (snd (refineNote scenario_settings host_500 scenario_file scenario_world)) = 0
   \<and> open_modals (snd (refineNote scenario_settings host_unreadable scenario_file scenario_world)) = 0
   \<and> open_modals (snd (refineNote scenario_settings host_read_only scenario_file scenario_world)) = 0"
  using busy_indicator_released [of "resolve ()" scenario_world scenario_settings host_ok scenario_file]
    busy_indicator_released [of "resolve ()" scenario_world scenario_settings host_500 scenario_file]
    busy_indicator_released [of "resolve ()" scenario_world scenario_settings host_unreadable scenario_file]
    busy_indicator_released [of "resolve ()" scenario_world scenario_settings host_read_only scenario_file]
  by (simp add: scenario_world_def)

text \<open>
  C10. \<^verbatim>\<open>refineNote\<close> never rejects: for every settings record, host behaviour (transport
  failure, any status, any body, any vault fault), file and world the run resolves, and it
  has shown exactly one notice, one of the three the function has.
\<close>

theorem refineNote_never_throws:
  "fst (refineNote st h file w) = Inr ()
   \<and> (notices (snd (refineNote st h file w)) = notices w @ [js ''Note refined: '' @ name file]
      \<or> notices (snd (refineNote st h file w)) = notices w @ [js ''Failed to refine the note.'']
      \<or> notices (snd (refineNote st h file w))
           = notices w @ [js ''An error occurred while refining the note.''])"
proof (cases "read_fault h")
  case (Some e)
  then show ?thesis by (simp add: refineNote_read_fault)
next
  case None
  let ?p = "prompt st (vault w (path file))"
  let ?w0 = "w\<lparr>open_modals := Suc (open_modals w)\<rparr>"
  obtain v w1 where run: "completion st h ?p ?w0 = (Inr v, w1)"
    and keep: "notices w1 = notices w"
    using completion_shape [of st h ?p ?w0] by auto
  show ?thesis
    using refineNote_after_read [OF None run] keep vault_modify_keeps [of h "file" v w1]
    by (auto split: prod.splits sum.splits)
qed

theorem refineNote_never_throws_witness:
  "fst (refineNote scenario_settings host_offline scenario_file scenario_world) = Inr ()
   \<and> notices (snd (refineNote scenario_settings host_offline scenario_file scenario_world))
       = [js ''Failed to refine the note.'']
   \<and> fst (refineNote scenario_settings host_500 scenario_file scenario_world) = Inr ()
   \<and> notices (snd (refineNote scenario_settings host_500 scenario_file scenario_world))
       = [js ''Failed to refine the note.'']
   \<and> fst (refineNote scenario_settings host_no_choices scenario_file scenario_world) = Inr ()
   \<and> notices (snd (refineNote scenario_settings host_no_choices scenario_file scenario_world))
       = [js ''Failed to refine the note.'']
   \<and> fst (refineNote scenario_settings host_garbled scenario_file scenario_world) = Inr ()
   \<and> notices (snd (refineNote scenario_settings host_garbled scenario_file scenario_world))
       = [js ''Failed to refine the note.'']
   \<and> fst (refineNote scenario_settings host_read_only scenario_file scenario_world) = Inr ()
   \<and> notices (snd (refineNote scenario_settings host_read_only scenario_file scenario_world))
       = [js ''An error occurred while refining the note.'']
   \<and> fst (refineNote scenario_settings host_unreadable scenario_file scenario_world) = Inr ()
   \<and> notices (snd (refineNote scenario_settings host_unreadable scenario_file scenario_world))
       = [js ''An error occurred while refining the note.'']"
  using refineNote_never_throws [of scenario_settings host_offline scenario_file scenario_world]
    refineNote_never_throws [of scenario_settings host_500 scenario_file scenario_world]
    refineNote_never_throws [of scenario_settings host_no_choices scenario_file scenario_world]
    refineNote_never_throws [of scenario_settings host_garbled scenario_file scenario_world]
    refineNote_never_throws [of scenario_settings host_read_only scenario_file scenario_world]
    refineNote_never_throws [of scenario_settings host_unreadable scenario_file scenario_world]
  by (simp add: example_defs refine_defs call_defs async_defs host_defs js_def)

end
